theory Spec2Isabelle
  imports Complex_Main
begin

section \<open>Python values, exceptions and number formatting\<close>

text \<open>
  The script \<^verbatim>\<open>generate_page.py\<close> fetches one quote for the symbol SPY, classifies the
  daily percent change and renders a page. The model below follows the script line by
  line. What the script obtains from outside (the environment variable, the HTTP
  exchange, the clock, the template and the file system) is a field of the record
  \<open>world\<close>; every exception the script can meet is a value of \<open>exn\<close>, and a function
  that can let an exception escape returns \<open>exn + 'a\<close>. Output on stdout is not modelled.

  \<^bold>\<open>Numbers.\<close> A Python \<^verbatim>\<open>float\<close> is a binary64 number: \<open>Finite x\<close> is the float whose exact
  value is the real \<open>x\<close>, and \<open>NegZero\<close>, \<open>PosInf\<close>, \<open>NegInf\<close> and \<open>NaN\<close> are \<^verbatim>\<open>-0.0\<close>, \<^verbatim>\<open>inf\<close>,
  \<^verbatim>\<open>-inf\<close> and \<^verbatim>\<open>nan\<close> (Python's JSON decoder accepts all of them). The decoder turns the
  decimal text of a number with a fraction or an exponent into the nearest float, ties to
  even, and so does the conversion of an \<^verbatim>\<open>int\<close> to \<^verbatim>\<open>float\<close>: the function \<open>binary64\<close>.
  Python compares two numbers by their exact values, also an \<^verbatim>\<open>int\<close> with a \<^verbatim>\<open>float\<close>, and
  the format \<^verbatim>\<open>.2f\<close> rounds the exact value of the float.
\<close>

datatype pyfloat = Finite real | NegZero | PosInf | NegInf | NaN

text \<open>The values \<^verbatim>\<open>response.json()\<close> can return; \<open>PyDict\<close> lists the items of the dictionary.\<close>

datatype pyval =
    PyNone
  | PyBool bool
  | PyInt int
  | PyFloat pyfloat
  | PyStr string
  | PyList "pyval list"
  | PyDict "(string \<times> pyval) list"

text \<open>
  The exceptions, each with the text \<^verbatim>\<open>str(e)\<close> gives. \<open>Timeout\<close> and \<open>HTTPError\<close> are the
  subclasses of \<^verbatim>\<open>requests.exceptions.RequestException\<close> the script names; \<open>RequestException\<close>
  stands for every other one. The second argument of \<open>HTTPError\<close> is
  \<^verbatim>\<open>str(http_err.response.json())\<close>, or \<open>None\<close> when that call raises.
\<close>

datatype exn =
    Timeout string
  | HTTPError string "string option"
  | RequestException string
  | AttributeError string
  | ValueError string
  | TypeError string
  | OverflowError string
  | OtherException string

fun str_exn :: \<open>exn \<Rightarrow> string\<close> where
  \<open>str_exn (Timeout m) = m\<close>
| \<open>str_exn (HTTPError m d) = m\<close>
| \<open>str_exn (RequestException m) = m\<close>
| \<open>str_exn (AttributeError m) = m\<close>
| \<open>str_exn (ValueError m) = m\<close>
| \<open>str_exn (TypeError m) = m\<close>
| \<open>str_exn (OverflowError m) = m\<close>
| \<open>str_exn (OtherException m) = m\<close>

fun type_name :: \<open>pyval \<Rightarrow> string\<close> where
  \<open>type_name PyNone = ''NoneType''\<close>
| \<open>type_name (PyBool b) = ''bool''\<close>
| \<open>type_name (PyInt i) = ''int''\<close>
| \<open>type_name (PyFloat f) = ''float''\<close>
| \<open>type_name (PyStr s) = ''str''\<close>
| \<open>type_name (PyList xs) = ''list''\<close>
| \<open>type_name (PyDict kvs) = ''dict''\<close>

definition sq :: \<open>string\<close> where
  \<open>sq = [CHR 0x27]\<close>

text \<open>\<^verbatim>\<open>d.get(k)\<close>: the value at \<open>k\<close> or \<^verbatim>\<open>None\<close>; only a dictionary has the method.\<close>

definition dict_get :: \<open>pyval \<Rightarrow> string \<Rightarrow> exn + pyval\<close> where
  \<open>dict_get d k =
     (case d of
        PyDict kvs \<Rightarrow> Inr (case map_of kvs k of None \<Rightarrow> PyNone | Some v \<Rightarrow> v)
      | _ \<Rightarrow> Inl (AttributeError
                 (sq @ type_name d @ sq @ '' object has no attribute 'get'' @ sq)))\<close>

text \<open>
  The number a value stands for in a comparison: \<^verbatim>\<open>bool\<close> is a subclass of \<^verbatim>\<open>int\<close>, and an
  \<^verbatim>\<open>int\<close> enters a comparison with its exact value, whatever its size.
\<close>

fun as_number :: \<open>pyval \<Rightarrow> pyfloat option\<close> where
  \<open>as_number (PyBool b) = Some (Finite (if b then 1 else 0))\<close>
| \<open>as_number (PyInt i) = Some (Finite (of_int i))\<close>
| \<open>as_number (PyFloat f) = Some f\<close>
| \<open>as_number v = None\<close>

text \<open>
  \<^verbatim>\<open>x <= c\<close>, \<^verbatim>\<open>x < c\<close> and \<^verbatim>\<open>x > c\<close> for a finite \<open>c\<close>: negative zero compares as zero, and
  every comparison with \<^verbatim>\<open>nan\<close> is false.
\<close>

fun py_le :: \<open>pyfloat \<Rightarrow> real \<Rightarrow> bool\<close> where
  \<open>py_le (Finite x) c = (x \<le> c)\<close>
| \<open>py_le NegZero c = (0 \<le> c)\<close>
| \<open>py_le NegInf c = True\<close>
| \<open>py_le PosInf c = False\<close>
| \<open>py_le NaN c = False\<close>

fun py_lt :: \<open>pyfloat \<Rightarrow> real \<Rightarrow> bool\<close> where
  \<open>py_lt (Finite x) c = (x < c)\<close>
| \<open>py_lt NegZero c = (0 < c)\<close>
| \<open>py_lt NegInf c = True\<close>
| \<open>py_lt PosInf c = False\<close>
| \<open>py_lt NaN c = False\<close>

fun py_gt :: \<open>pyfloat \<Rightarrow> real \<Rightarrow> bool\<close> where
  \<open>py_gt (Finite x) c = (c < x)\<close>
| \<open>py_gt NegZero c = (c < 0)\<close>
| \<open>py_gt NegInf c = False\<close>
| \<open>py_gt PosInf c = True\<close>
| \<open>py_gt NaN c = False\<close>

text \<open>Rounding to the nearest integer, ties to the even one.\<close>

definition round_half_even :: \<open>real \<Rightarrow> int\<close> where
  \<open>round_half_even x =
     (let f = \<lfloor>x\<rfloor>; d = x - of_int f
      in if d < 1 / 2 then f
         else if 1 / 2 < d then f + 1
         else if even f then f else f + 1)\<close>

text \<open>
  Rounding a real to binary64. \<open>bit_length\<close> is Python's \<^verbatim>\<open>int.bit_length\<close>; \<open>exponent x\<close> is
  the \<open>e\<close> with \<open>2 ^ e \<le> \<bar>x\<bar> < 2 ^ (e + 1)\<close> for \<open>x \<noteq> 0\<close>. A float of that exponent is a
  multiple of \<open>2 ^ (e - 52)\<close> (53 significant bits), and of \<open>2 ^ - 1074\<close> below the normal
  range. A result of \<open>2 ^ 1024\<close> or more is an infinity, and a result of zero keeps the
  sign.
\<close>

fun bit_length :: \<open>nat \<Rightarrow> nat\<close> where
  \<open>bit_length n = (if n = 0 then 0 else Suc (bit_length (n div 2)))\<close>

declare bit_length.simps [simp del]

definition exponent :: \<open>real \<Rightarrow> int\<close> where
  \<open>exponent x =
     (if 1 \<le> \<bar>x\<bar> then int (bit_length (nat \<lfloor>\<bar>x\<bar>\<rfloor>)) - 1
      else - int (bit_length (nat (\<lceil>1 / \<bar>x\<bar>\<rceil> - 1))))\<close>

definition pow2 :: \<open>int \<Rightarrow> real\<close> where
  \<open>pow2 k = (if 0 \<le> k then 2 ^ nat k else 1 / 2 ^ nat (- k))\<close>

definition binary64 :: \<open>real \<Rightarrow> pyfloat\<close> where
  \<open>binary64 x =
     (if x = 0 then Finite 0
      else
        (let q = pow2 (max (exponent x) (- 1022) - 52);
             y = of_int (round_half_even (x / q)) * q
         in if 2 ^ 1024 \<le> \<bar>y\<bar> then (if x < 0 then NegInf else PosInf)
            else if y = 0 then (if x < 0 then NegZero else Finite 0)
            else Finite y))\<close>

text \<open>The value of the literal \<^verbatim>\<open>0.2\<close> of line 79: the float nearest to one fifth.\<close>

definition float_0_2 :: \<open>real\<close> where
  \<open>float_0_2 = 3602879701896397 / 2 ^ 54\<close>

text \<open>
  \<^verbatim>\<open>float(i)\<close> for an \<^verbatim>\<open>int\<close>: the nearest float, and \<^verbatim>\<open>OverflowError\<close> where that would be
  an infinity.
\<close>

definition float_of_int :: \<open>int \<Rightarrow> exn + pyfloat\<close> where
  \<open>float_of_int i =
     (case binary64 (of_int i) of
        PosInf \<Rightarrow> Inl (OverflowError ''int too large to convert to float'')
      | NegInf \<Rightarrow> Inl (OverflowError ''int too large to convert to float'')
      | f \<Rightarrow> Inr f)\<close>

text \<open>
  The format specification \<^verbatim>\<open>.2f\<close> on a float: two digits after the point, the exact value
  rounded half to even, the sign of a negative value kept (\<^verbatim>\<open>f"{-0.001:.2f}"\<close> and
  \<^verbatim>\<open>f"{-0.0:.2f}"\<close> are \<^verbatim>\<open>-0.00\<close>).
\<close>

definition digit_char :: \<open>nat \<Rightarrow> char\<close> where
  \<open>digit_char d = ''0123456789'' ! d\<close>

fun decimal :: \<open>nat \<Rightarrow> string\<close> where
  \<open>decimal n = (if n < 10 then [digit_char n] else decimal (n div 10) @ [digit_char (n mod 10)])\<close>

declare decimal.simps [simp del]

definition fixed2 :: \<open>real \<Rightarrow> string\<close> where
  \<open>fixed2 x =
     (let n = nat (round_half_even (\<bar>x\<bar> * 100))
      in (if x < 0 then ''-'' else []) @ decimal (n div 100) @ ''.'' @
         [digit_char (n mod 100 div 10), digit_char (n mod 10)])\<close>

fun format_float :: \<open>pyfloat \<Rightarrow> string\<close> where
  \<open>format_float (Finite x) = fixed2 x\<close>
| \<open>format_float NegZero = ''-0.00''\<close>
| \<open>format_float PosInf = ''inf''\<close>
| \<open>format_float NegInf = ''-inf''\<close>
| \<open>format_float NaN = ''nan''\<close>

text \<open>
  \<^verbatim>\<open>f"{v:.2f}"\<close> for any value: a \<^verbatim>\<open>bool\<close> or an \<^verbatim>\<open>int\<close> is converted to \<^verbatim>\<open>float\<close> first, and
  the other types refuse the format.
\<close>

fun format_2f :: \<open>pyval \<Rightarrow> exn + string\<close> where
  \<open>format_2f PyNone =
     Inl (TypeError ''unsupported format string passed to NoneType.__format__'')\<close>
| \<open>format_2f (PyBool b) = Inr (fixed2 (if b then 1 else 0))\<close>
| \<open>format_2f (PyInt i) =
     (case float_of_int i of Inl e \<Rightarrow> Inl e | Inr f \<Rightarrow> Inr (format_float f))\<close>
| \<open>format_2f (PyFloat f) = Inr (format_float f)\<close>
| \<open>format_2f (PyStr s) =
     Inl (ValueError (''Unknown format code 'f' for object of type 'str'' @ sq))\<close>
| \<open>format_2f (PyList xs) =
     Inl (TypeError ''unsupported format string passed to list.__format__'')\<close>
| \<open>format_2f (PyDict kvs) =
     Inl (TypeError ''unsupported format string passed to dict.__format__'')\<close>

section \<open>Configuration\<close>

definition FINANCIAL_API_BASE_URL :: \<open>string\<close> where
  \<open>FINANCIAL_API_BASE_URL = ''https://finnhub.io/api/v1''\<close>

definition INDEX_SYMBOL :: \<open>string\<close> where
  \<open>INDEX_SYMBOL = ''SPY''\<close>

text \<open>
  Strings are byte lists, so the three arrow glyphs of the script are their UTF-8
  encodings: U+25BC, U+25B2 and U+25AC.
\<close>

definition down_arrow :: \<open>string\<close> where
  \<open>down_arrow = [CHR 0xE2, CHR 0x96, CHR 0xBC]\<close>

definition up_arrow :: \<open>string\<close> where
  \<open>up_arrow = [CHR 0xE2, CHR 0x96, CHR 0xB2]\<close>

definition flat_bar :: \<open>string\<close> where
  \<open>flat_bar = [CHR 0xE2, CHR 0x96, CHR 0xAC]\<close>

section \<open>The embed table\<close>

definition embed_map :: \<open>(string \<times> string) list\<close> where
  \<open>embed_map =
     [(''yes'', ''\<newline>            <div style="width:100%;height:0;padding-bottom:56%;position:relative;"><iframe src="https://giphy.com/embed/1rNWZu4QQqCUaq434T" width="100%" height="100%" style="position:absolute" frameBorder="0" class="giphy-embed" allowFullScreen></iframe></div><p><a href="https://giphy.com/gifs/this-is-fine-dumpster-fire-floating-1rNWZu4QQqCUaq434T">via GIPHY</a></p>\<newline>            ''),
      (''wobbly'', ''\<newline>            <div style="width:100%;height:0;padding-bottom:100%;position:relative;"><iframe src="https://giphy.com/embed/NTur7XlVDUdqM" width="100%" height="100%" style="position:absolute" frameBorder="0" class="giphy-embed" allowFullScreen></iframe></div><p><a href="https://giphy.com/gifs/this-is-fine-dog-ntur7xldudqm">via GIPHY</a></p>\<newline>            ''),
      (''bleeding'', ''\<newline>            <div style="width:100%;height:0;padding-bottom:50%;position:relative;"><iframe src="https://giphy.com/embed/3IMr40UId6417vSWZ6" width="100%" height="100%" style="position:absolute" frameBorder="0" class="giphy-embed" allowFullScreen></iframe></div><p><a href="https://giphy.com/gifs/a24-lamb-3IMr40UId6417vSWZ6">via GIPHY</a></p>\<newline>            ''),
      (''no'', ''\<newline>            <div style="width:100%;height:0;padding-bottom:100%;position:relative;"><iframe src="https://giphy.com/embed/d8SRR4aDUINuU" width="100%" height="100%" style="position:absolute" frameBorder="0" class="giphy-embed" allowFullScreen></iframe></div><p><a href="https://giphy.com/gifs/nooooo-d8SRR4aDUINuU">via GIPHY</a></p>\<newline>            ''),
      (''climbing'', ''\<newline>            <div style="width:100%;height:0;padding-bottom:75%;position:relative;"><iframe src="https://giphy.com/embed/NEvPzZ8bd1V4Y" width="100%" height="100%" style="position:absolute" frameBorder="0" class="giphy-embed" allowFullScreen></iframe></div><p><a href="https://giphy.com/gifs/reactionseditor-yes-nice-nevpzz8bd1v4y">via GIPHY</a></p>\<newline>            ''),
      (''sideways'', ''\<newline>            <div style="width:100%;height:0;padding-bottom:56%;position:relative;"><iframe src="https://giphy.com/embed/l1J3VHwlmsc9vsmju" width="100%" height="100%" style="position:absolute" frameBorder="0" class="giphy-embed" allowFullScreen></iframe></div><p><a href="https://giphy.com/gifs/masterchef-fox-season-8-l1J3VHwlmsc9vsmju">via GIPHY</a></p>\<newline>            ''),
      (''error'', ''\<newline>            <div style="width:100%;height:0;padding-bottom:56%;position:relative;"><iframe src="https://giphy.com/embed/JliGmPEIgzGLe" width="100%" height="100%" style="position:absolute" frameBorder="0" class="giphy-embed" allowFullScreen></iframe></div><p><a href="https://giphy.com/gifs/computer-computers-problems-JliGmPEIgzGLe">via GIPHY</a></p>\<newline>            '')]\<close>

definition default_embed :: \<open>string\<close> where
  \<open>default_embed = ''\<newline>        <div style="width:100%;height:0;padding-bottom:100%;position:relative;"><iframe src="https://giphy.com/embed/l0HlHFRbmaZtBRhXG" width="100%" height="100%" style="position:absolute" frameBorder="0" class="giphy-embed" allowFullScreen></iframe></div><p><a href="https://giphy.com/gifs/reactionseditor-shrug-l0hlhfrbmaztbrhxg">via GIPHY</a></p>\<newline>        ''\<close>

text \<open>\<^verbatim>\<open>embed_map.get(status_class, default_embed)\<close>.\<close>

definition get_visual_humor_embed :: \<open>string \<Rightarrow> string\<close> where
  \<open>get_visual_humor_embed status_class =
     (case map_of embed_map status_class of None \<Rightarrow> default_embed | Some code \<Rightarrow> code)\<close>

section \<open>The quote fetcher\<close>

text \<open>
  The local variables of \<^verbatim>\<open>get_market_data\<close>. Three of them share their name with a key
  of the returned dictionary and carry the suffix \<open>_var\<close> here. A variable holds a Python
  value: \<^verbatim>\<open>overall_index_change\<close> starts as the integer 0 and \<^verbatim>\<open>current_price\<close> as
  \<^verbatim>\<open>None\<close>, and both take whatever the response holds.
\<close>

record locals =
  overall_index_change :: pyval
  current_price :: pyval
  error_msg :: "string option"
  status_text_var :: string
  status_class_var :: string
  subtitle_var :: string
  arrow_character :: string

definition initial_locals :: \<open>locals\<close> where
  \<open>initial_locals =
     \<lparr>overall_index_change = PyInt 0,
      current_price = PyNone,
      error_msg = None,
      status_text_var = ''MAYBE?'',
      status_class_var = ''maybe'',
      subtitle_var = ''Checking the market pulse...'',
      arrow_character = []\<rparr>\<close>

text \<open>
  One branch of the chain at lines 59 to 88: the two assignments, then the subtitle, whose
  f-string formats the change again and may raise, then the arrow.
\<close>

definition assign_status ::
  \<open>locals \<Rightarrow> string \<Rightarrow> string \<Rightarrow> string \<Rightarrow> string \<Rightarrow> string \<Rightarrow> (exn \<times> locals) + locals\<close> where
  \<open>assign_status l text cls pre post arrow =
     (let l1 = l\<lparr>status_text_var := text, status_class_var := cls\<rparr>
      in case format_2f (overall_index_change l1) of
           Inl e \<Rightarrow> Inl (e, l1)
         | Inr s \<Rightarrow> Inr (l1\<lparr>subtitle_var := pre @ s @ post, arrow_character := arrow\<rparr>))\<close>

text \<open>
  Lines 59 to 88. The first comparison raises \<^verbatim>\<open>TypeError\<close> on a value that is not a
  number; on a number the chain is evaluated top to bottom. The literals \<^verbatim>\<open>-10\<close>, \<^verbatim>\<open>-5\<close>,
  \<^verbatim>\<open>-2\<close> and \<^verbatim>\<open>2\<close> are integers; the literal \<^verbatim>\<open>0.2\<close> is the float \<open>float_0_2\<close>.
\<close>

definition classify :: \<open>locals \<Rightarrow> (exn \<times> locals) + locals\<close> where
  \<open>classify l =
     (case as_number (overall_index_change l) of
        None \<Rightarrow>
          Inl (TypeError (sq @ ''<='' @ sq @ '' not supported between instances of '' @ sq @
                 type_name (overall_index_change l) @ sq @ '' and 'int'' @ sq), l)
      | Some x \<Rightarrow>
          if py_le x (- 10) then
            assign_status l ''YES!'' ''yes'' ''S&P 500 down '' ''%. Deep breaths.'' down_arrow
          else if py_le x (- 5) then
            assign_status l ''BLEEDING'' ''bleeding'' ''S&P 500 down '' ''%. Minor dip.'' down_arrow
          else if py_lt x (- 2) then
            assign_status l ''WOBBLY'' ''wobbly'' ''S&P 500 down '' ''%. Looking shaky.'' down_arrow
          else if py_gt x 2 then
            assign_status l ''NOT YET!'' ''no'' ''S&P 500 up '' ''%. Still climbing!'' up_arrow
          else if py_gt x float_0_2 then
            assign_status l ''CLIMBING'' ''climbing'' ''S&P 500 up '' ''%. Gentle rise.'' up_arrow
          else
            assign_status l ''FLAT'' ''sideways'' ''S&P 500 change: '' ''%. Holding steady...''
              flat_bar)\<close>

text \<open>
  The body of the \<^verbatim>\<open>try\<close> statement, lines 40 to 88. Its first argument is what lines 43
  to 45 yield (the request, \<^verbatim>\<open>raise_for_status\<close> and \<^verbatim>\<open>response.json()\<close>): an exception or
  the decoded body. A raise returns the exception with the variables as they stand at
  that line.
\<close>

definition try_body :: \<open>exn + pyval \<Rightarrow> locals \<Rightarrow> (exn \<times> locals) + locals\<close> where
  \<open>try_body response l =
     (case response of
        Inl e \<Rightarrow> Inl (e, l)
      | Inr index_data \<Rightarrow>
          (case dict_get index_data ''dp'' of
             Inl e \<Rightarrow> Inl (e, l)
           | Inr dp \<Rightarrow>
               (let l1 = l\<lparr>overall_index_change := dp\<rparr>
                in case dict_get index_data ''c'' of
                     Inl e \<Rightarrow> Inl (e, l1)
                   | Inr c \<Rightarrow>
                       (let l2 = l1\<lparr>current_price := c\<rparr>;
                            l3 = (if overall_index_change l2 = PyNone
                                  then l2\<lparr>overall_index_change := PyInt 0,
                                          error_msg := Some (''Could not retrieve percent change for ''
                                                             @ INDEX_SYMBOL @ ''.'')\<rparr>
                                  else l2)
                        in case format_2f (overall_index_change l3) of
                             Inl e \<Rightarrow> Inl (e, l3)
                           | Inr s \<Rightarrow> classify l3))))\<close>

text \<open>The four \<^verbatim>\<open>except\<close> clauses, lines 90 to 121, in their order.\<close>

definition error_status :: \<open>locals \<Rightarrow> string \<Rightarrow> string \<Rightarrow> locals\<close> where
  \<open>error_status l msg sub =
     l\<lparr>error_msg := Some msg,
       status_text_var := ''ERROR'',
       status_class_var := ''error'',
       subtitle_var := sub,
       arrow_character := ''?''\<rparr>\<close>

fun except_clauses :: \<open>exn \<Rightarrow> locals \<Rightarrow> locals\<close> where
  \<open>except_clauses (Timeout m) l =
     error_status l ''API request timed out.'' ''Could not fetch market data.''\<close>
| \<open>except_clauses (HTTPError m (Some err_details)) l =
     error_status l (''API HTTP error: '' @ m @ '' - '' @ err_details)
       ''Could not fetch market data.''\<close>
| \<open>except_clauses (HTTPError m None) l =
     error_status l (''API HTTP error occurred: '' @ m) ''Could not fetch market data.''\<close>
| \<open>except_clauses (RequestException m) l =
     error_status l (''API Request error occurred: '' @ m) ''Could not fetch market data.''\<close>
| \<open>except_clauses e l =
     error_status l (''An unexpected error occurred: '' @ str_exn e)
       ''Could not determine market status.''\<close>

text \<open>The dictionary \<^verbatim>\<open>get_market_data\<close> returns, one field for each key.\<close>

record report =
  status_text :: string
  status_class :: string
  status_arrow :: string
  subtitle :: string
  giphy_embed_code :: string
  index_change_percent :: string
  index_current_price :: string
  index_symbol :: string
  generation_time :: string
  error_message :: "string option"

text \<open>
  What the script meets outside itself: the environment variable after \<^verbatim>\<open>load_dotenv\<close>,
  the outcome of the GET request for a URL, the formatted time, the template (loading it
  may raise, and so may rendering), and the output file with the outcome of writing it.
\<close>

datatype io_outcome = OpenRaises exn | WriteRaises exn string | Written

record world =
  FINANCIAL_API_KEY :: "string option"
  http_get :: "string \<Rightarrow> exn + pyval"
  strftime_now :: string
  get_template :: "exn + (report \<Rightarrow> exn + string)"
  open_write :: io_outcome
  index_html :: "string option"

definition quote_url :: \<open>string \<Rightarrow> string\<close> where
  \<open>quote_url API_KEY =
     FINANCIAL_API_BASE_URL @ ''/quote?symbol='' @ INDEX_SYMBOL @ ''&token='' @ API_KEY\<close>

text \<open>
  The \<^verbatim>\<open>try\<close> statement as a whole, lines 39 to 121: the variables after the body has run
  through, or after the clause that caught its exception.
\<close>

definition try_except :: \<open>exn + pyval \<Rightarrow> locals\<close> where
  \<open>try_except response =
     (case try_body response initial_locals of
        Inl (e, l) \<Rightarrow> except_clauses e l
      | Inr l \<Rightarrow> l)\<close>

text \<open>
  Lines 123 to 140: the embed lookup and the returned dictionary. Its two conditional
  f-strings (lines 135 and 136) stand after the \<^verbatim>\<open>try\<close> statement: an exception they
  raise leaves the function.
\<close>

definition build_report :: \<open>world \<Rightarrow> locals \<Rightarrow> exn + report\<close> where
  \<open>build_report w l =
     (let giphy_embed_code = get_visual_humor_embed (status_class_var l)
      in case (if overall_index_change l \<noteq> PyNone
               then (case format_2f (overall_index_change l) of
                       Inl e \<Rightarrow> Inl e | Inr s \<Rightarrow> Inr (s @ ''%''))
               else Inr ''N/A'') of
           Inl e \<Rightarrow> Inl e
         | Inr change_percent \<Rightarrow>
             (case (if current_price l \<noteq> PyNone then format_2f (current_price l)
                    else Inr ''N/A'') of
                Inl e \<Rightarrow> Inl e
              | Inr price \<Rightarrow>
                  Inr \<lparr>status_text = status_text_var l,
                       status_class = status_class_var l,
                       status_arrow = arrow_character l,
                       subtitle = subtitle_var l,
                       giphy_embed_code = giphy_embed_code,
                       index_change_percent = change_percent,
                       index_current_price = price,
                       index_symbol = INDEX_SYMBOL,
                       generation_time = strftime_now w,
                       error_message = error_msg l\<rparr>))\<close>

text \<open>\<^verbatim>\<open>get_market_data\<close>, lines 26 to 140; \<^verbatim>\<open>API_KEY\<close> is the global the URL is built from.\<close>

definition get_market_data :: \<open>string \<Rightarrow> world \<Rightarrow> exn + report\<close> where
  \<open>get_market_data API_KEY w = build_report w (try_except (http_get w (quote_url API_KEY)))\<close>

section \<open>The page renderer\<close>

text \<open>
  The body of the \<^verbatim>\<open>try\<close> statement of \<^verbatim>\<open>generate_html\<close>, lines 186 to 198: load the
  template, render it, open the output file for writing and write. It returns the
  exception or nothing, and the content of the output file afterwards: unchanged while
  nothing was opened, what the failed write left behind, or the rendered page.
\<close>

definition generate_html_try :: \<open>world \<Rightarrow> report \<Rightarrow> (exn + unit) \<times> string option\<close> where
  \<open>generate_html_try w data =
     (case get_template w of
        Inl e \<Rightarrow> (Inl e, index_html w)
      | Inr template \<Rightarrow>
          (case template data of
             Inl e \<Rightarrow> (Inl e, index_html w)
           | Inr output_content \<Rightarrow>
               (case open_write w of
                  OpenRaises e \<Rightarrow> (Inl e, index_html w)
                | WriteRaises e left \<Rightarrow> (Inl e, Some left)
                | Written \<Rightarrow> (Inr (), Some output_content))))\<close>

text \<open>\<^verbatim>\<open>generate_html\<close>, lines 182 to 201: \<^verbatim>\<open>except Exception\<close> turns every raise into \<^verbatim>\<open>False\<close>.\<close>

definition generate_html :: \<open>world \<Rightarrow> report \<Rightarrow> bool \<times> string option\<close> where
  \<open>generate_html w data =
     (case generate_html_try w data of
        (Inl e, file) \<Rightarrow> (False, file)
      | (Inr u, file) \<Rightarrow> (True, file))\<close>

section \<open>The script\<close>

text \<open>
  A run of the script, once its imports at lines 1 to 5 have succeeded (the import check at
  lines 207 to 213 then finds the modules loaded): the exit status of the process, the
  URLs it requested and the content of the output file at the end. \<^verbatim>\<open>not API_KEY\<close> holds
  for \<^verbatim>\<open>None\<close> and for the empty string. An exception that leaves \<^verbatim>\<open>get_market_data\<close> is
  caught nowhere: the interpreter prints the traceback and exits with status 1.
\<close>

record outcome =
  exit_code :: int
  requests_sent :: "string list"
  index_html_after :: "string option"

definition script :: \<open>world \<Rightarrow> outcome\<close> where
  \<open>script w =
     (case FINANCIAL_API_KEY w of
        None \<Rightarrow> \<lparr>exit_code = 1, requests_sent = [], index_html_after = index_html w\<rparr>
      | Some API_KEY \<Rightarrow>
          if API_KEY = [] then
            \<lparr>exit_code = 1, requests_sent = [], index_html_after = index_html w\<rparr>
          else
            (case get_market_data API_KEY w of
               Inl e \<Rightarrow>
                 \<lparr>exit_code = 1, requests_sent = [quote_url API_KEY],
                  index_html_after = index_html w\<rparr>
             | Inr market_data \<Rightarrow>
                 \<lparr>exit_code = 0, requests_sent = [quote_url API_KEY],
                  index_html_after = snd (generate_html w market_data)\<rparr>))\<close>

text \<open>
  The status classes the script assigns: the six of the chain at lines 59 to 88 and
  \<^verbatim>\<open>error\<close> of the \<^verbatim>\<open>except\<close> clauses.
\<close>

definition status_classes :: \<open>string list\<close> where
  \<open>status_classes =
     [''yes'', ''bleeding'', ''wobbly'', ''no'', ''climbing'', ''sideways'', ''error'']\<close>

text \<open>
  A world for the examples: the key is set, every request has the given outcome, the
  template prints the status class and the price, and the output file can be written.
\<close>

definition world_with :: \<open>exn + pyval \<Rightarrow> world\<close> where
  \<open>world_with response =
     \<lparr>FINANCIAL_API_KEY = Some ''key'',
      http_get = (\<lambda>url. response),
      strftime_now = ''2024-01-01 00:00:00 '',
      get_template = Inr (\<lambda>data. Inr (status_class data @ '' '' @ index_current_price data)),
      open_write = Written,
      index_html = None\<rparr>\<close>

section \<open>Unfolding the fetcher\<close>

lemmas fetch_defs = get_market_data_def try_except_def try_body_def dict_get_def classify_def
  assign_status_def build_report_def initial_locals_def error_status_def INDEX_SYMBOL_def

lemmas float_defs = float_of_int_def binary64_def exponent_def pow2_def round_half_even_def
  Let_def bit_length.simps

lemmas format_defs = fixed2_def decimal.simps digit_char_def float_defs

lemmas world_defs = world_with_def quote_url_def

text \<open>
  The decoder's float for the text \<^verbatim>\<open>0.2\<close> is the float of the literal \<^verbatim>\<open>0.2\<close>, and it lies
  above one fifth.
\<close>

lemma binary64_0_2: "binary64 0.2 = Finite float_0_2"
  by (simp add: float_defs float_0_2_def)

lemma float_0_2_above: "0.2 < float_0_2"
  by (simp add: float_0_2_def)

lemma format_2f_zero: "format_2f (PyInt 0) = Inr ''0.00''"
  by (simp add: format_defs)

text \<open>
  The number model at four inputs where a decimal reading and Python differ: the float of
  the text \<^verbatim>\<open>0.20000000000000001\<close> is the float of \<^verbatim>\<open>0.2\<close>; \<^verbatim>\<open>2.675\<close> and \<^verbatim>\<open>0.015\<close> print as
  \<^verbatim>\<open>2.67\<close> and \<^verbatim>\<open>0.01\<close>, since their floats lie below them; and the integer \<open>2 ^ 53 + 1\<close>
  prints as the float it converts to.
\<close>

lemma binary64_near_0_2: "binary64 0.20000000000000001 = Finite float_0_2"
  by (simp add: float_defs float_0_2_def)

lemma format_2f_2_675: "format_2f (PyFloat (binary64 2.675)) = Inr ''2.67''"
  by (simp add: format_defs)

lemma format_2f_0_015: "format_2f (PyFloat (binary64 0.015)) = Inr ''0.01''"
  by (simp add: format_defs)

lemma format_2f_large_int:
  "format_2f (PyInt 9007199254740993) = Inr ''9007199254740992.00''"
  by (simp add: format_defs)

text \<open>The chain at lines 59 to 88 on a finite number that formats to \<open>s\<close>.\<close>

lemma classify_finite:
  assumes "as_number (overall_index_change l) = Some (Finite x)"
      and "format_2f (overall_index_change l) = Inr s"
  shows "classify l = Inr
     (if x \<le> - 10 then
        l\<lparr>status_text_var := ''YES!'', status_class_var := ''yes'',
          subtitle_var := ''S&P 500 down '' @ s @ ''%. Deep breaths.'',
          arrow_character := down_arrow\<rparr>
      else if x \<le> - 5 then
        l\<lparr>status_text_var := ''BLEEDING'', status_class_var := ''bleeding'',
          subtitle_var := ''S&P 500 down '' @ s @ ''%. Minor dip.'',
          arrow_character := down_arrow\<rparr>
      else if x < - 2 then
        l\<lparr>status_text_var := ''WOBBLY'', status_class_var := ''wobbly'',
          subtitle_var := ''S&P 500 down '' @ s @ ''%. Looking shaky.'',
          arrow_character := down_arrow\<rparr>
      else if 2 < x then
        l\<lparr>status_text_var := ''NOT YET!'', status_class_var := ''no'',
          subtitle_var := ''S&P 500 up '' @ s @ ''%. Still climbing!'',
          arrow_character := up_arrow\<rparr>
      else if float_0_2 < x then
        l\<lparr>status_text_var := ''CLIMBING'', status_class_var := ''climbing'',
          subtitle_var := ''S&P 500 up '' @ s @ ''%. Gentle rise.'',
          arrow_character := up_arrow\<rparr>
      else
        l\<lparr>status_text_var := ''FLAT'', status_class_var := ''sideways'',
          subtitle_var := ''S&P 500 change: '' @ s @ ''%. Holding steady...'',
          arrow_character := flat_bar\<rparr>)"
  using assms by (simp add: classify_def assign_status_def)

text \<open>Lines 48 to 56 on a dictionary whose change (or the 0 that replaces it) formats.\<close>

lemma try_body_dict:
  assumes "dict_get (PyDict kvs) ''dp'' = Inr dp"
      and "dict_get (PyDict kvs) ''c'' = Inr c"
      and "format_2f (if dp = PyNone then PyInt 0 else dp) = Inr s"
  shows "try_body (Inr (PyDict kvs)) l =
     classify (if dp = PyNone
               then l\<lparr>overall_index_change := dp, current_price := c,
                      overall_index_change := PyInt 0,
                      error_msg := Some ''Could not retrieve percent change for SPY.''\<rparr>
               else l\<lparr>overall_index_change := dp, current_price := c\<rparr>)"
proof (cases "dp = PyNone")
  case True
  then show ?thesis
    using assms(1,2)
    by (simp add: try_body_def Let_def INDEX_SYMBOL_def format_2f_zero del: format_2f.simps)
next
  case False
  then show ?thesis
    using assms by (simp add: try_body_def Let_def del: format_2f.simps)
qed

text \<open>The price of a dictionary is read whatever it holds.\<close>

lemma dict_get_dict:
  "dict_get (PyDict kvs) k = Inr (case map_of kvs k of None \<Rightarrow> PyNone | Some v \<Rightarrow> v)"
  by (simp add: dict_get_def)

subsection \<open>The status class of every report\<close>

lemma except_clauses_class: "status_class_var (except_clauses e l) = ''error''"
  by (induction e l rule: except_clauses.induct) (simp_all add: error_status_def)

lemma assign_status_class:
  "assign_status l text cls pre post arrow = Inr l' \<Longrightarrow> status_class_var l' = cls"
  by (auto simp: assign_status_def Let_def split: sum.splits)

lemma classify_class: "classify l = Inr l' \<Longrightarrow> status_class_var l' \<in> set status_classes"
  by (auto simp: classify_def status_classes_def split: option.splits if_splits
      dest!: assign_status_class)

lemma try_body_class:
  "try_body response l = Inr l' \<Longrightarrow> status_class_var l' \<in> set status_classes"
  by (auto simp: try_body_def Let_def simp del: format_2f.simps
      split: sum.splits if_splits dest: classify_class)

lemma try_except_class: "status_class_var (try_except response) \<in> set status_classes"
proof (cases "try_body response initial_locals")
  case (Inl a)
  then show ?thesis
    by (cases a) (simp add: try_except_def except_clauses_class status_classes_def)
next
  case (Inr l)
  then show ?thesis
    by (simp add: try_except_def try_body_class)
qed

lemma build_report_fields:
  "build_report w l = Inr r \<Longrightarrow>
     status_class r = status_class_var l \<and>
     giphy_embed_code r = get_visual_humor_embed (status_class_var l) \<and>
     generation_time r = strftime_now w"
  by (auto simp: build_report_def Let_def simp del: format_2f.simps
      split: sum.splits if_splits)

lemma build_report_returns:
  assumes "overall_index_change l \<noteq> PyNone"
      and "format_2f (overall_index_change l) = Inr s"
      and "current_price l = PyNone \<or> format_2f (current_price l) = Inr p"
  shows "\<exists>r. build_report w l = Inr r"
  using assms by (auto simp: build_report_def simp del: format_2f.simps)

lemma embed_nonempty: "get_visual_humor_embed c \<noteq> []"
  by (simp add: get_visual_humor_embed_def embed_map_def default_embed_def)

lemma embed_default:
  "c \<notin> set status_classes \<Longrightarrow> get_visual_humor_embed c = default_embed"
  by (simp add: get_visual_humor_embed_def embed_map_def status_classes_def)

subsection \<open>The clock and the output file\<close>

lemma build_report_clock:
  "build_report w2 l =
     map_sum id (\<lambda>r. r\<lparr>generation_time := strftime_now w2\<rparr>) (build_report w1 l)"
  by (simp add: build_report_def Let_def del: format_2f.simps split: sum.splits)

lemma generate_html_file:
  "generate_html w data =
     (case get_template w of
        Inl e \<Rightarrow> (False, index_html w)
      | Inr template \<Rightarrow>
          (case template data of
             Inl e \<Rightarrow> (False, index_html w)
           | Inr page \<Rightarrow>
               (case open_write w of
                  OpenRaises e \<Rightarrow> (False, index_html w)
                | WriteRaises e left \<Rightarrow> (False, Some left)
                | Written \<Rightarrow> (True, Some page))))"
  by (simp add: generate_html_def generate_html_try_def split: sum.splits io_outcome.splits)

lemma script_file:
  "index_html_after (script w) =
     (case FINANCIAL_API_KEY w of
        None \<Rightarrow> index_html w
      | Some k \<Rightarrow>
          if k = [] then index_html w
          else (case get_market_data k w of
                  Inl e \<Rightarrow> index_html w
                | Inr r \<Rightarrow> snd (generate_html w r)))"
  by (simp add: script_def split: option.splits sum.splits)

section \<open>The classification thresholds\<close>

text \<open>
  Claim C1, as the specification states it: a successful fetch whose daily percent change
  is exactly 2 is classified as \<^verbatim>\<open>sideways\<close>. The chain tests \<^verbatim>\<open>> 2\<close> and then \<^verbatim>\<open>> 0.2\<close>, so
  the value 2 falls into the second of the two: on the response
  \<^verbatim>\<open>{"c": 450.0, "dp": 2}\<close> the status class is \<^verbatim>\<open>climbing\<close>, not \<^verbatim>\<open>sideways\<close>.
\<close>

theorem change_of_two_not_sideways:
  "map_sum str_exn status_class
     (get_market_data ''key''
        (world_with (Inr (PyDict [(''c'', PyFloat (Finite 450)), (''dp'', PyInt 2)]))))
     = Inr ''climbing'' \<and>
   map_sum str_exn status_class
     (get_market_data ''key''
        (world_with (Inr (PyDict [(''c'', PyFloat (Finite 450)), (''dp'', PyInt 2)]))))
     \<noteq> Inr ''sideways''"
  by (simp add: fetch_defs format_defs world_defs float_0_2_def)

text \<open>
  Claim C1, amended: when the response is a JSON object whose daily percent change is
  exactly 2 (the integer \<^verbatim>\<open>2\<close> or the float \<^verbatim>\<open>2.0\<close>) and whose price is absent, \<^verbatim>\<open>null\<close> or a
  value the format \<^verbatim>\<open>.2f\<close> accepts, \<^verbatim>\<open>get_market_data\<close> returns a report with status class
  \<^verbatim>\<open>climbing\<close> (neither \<^verbatim>\<open>sideways\<close> nor \<^verbatim>\<open>no\<close>), label \<^verbatim>\<open>CLIMBING\<close>, the up arrow and the
  change \<^verbatim>\<open>2.00%\<close>.
\<close>

theorem change_of_two_is_climbing:
  assumes "http_get w (quote_url API_KEY) = Inr (PyDict kvs)"
      and "map_of kvs ''dp'' = Some dp"
      and "dp = PyInt 2 \<or> dp = PyFloat (Finite 2)"
      and "dict_get (PyDict kvs) ''c'' = Inr c"
      and "c = PyNone \<or> format_2f c = Inr p"
  shows "\<exists>r. get_market_data API_KEY w = Inr r \<and>
           status_class r = ''climbing'' \<and>
           status_class r \<noteq> ''sideways'' \<and>
           status_class r \<noteq> ''no'' \<and>
           status_text r = ''CLIMBING'' \<and>
           status_arrow r = up_arrow \<and>
           index_change_percent r = ''2.00%''"
proof -
  have dp: "dict_get (PyDict kvs) ''dp'' = Inr dp" and "dp \<noteq> PyNone"
    using assms(2,3) by (auto simp: dict_get_def)
  moreover have num: "as_number dp = Some (Finite 2)" and fmt: "format_2f dp = Inr ''2.00''"
    using assms(3) by (auto simp: format_defs)
  ultimately have "try_body (Inr (PyDict kvs)) initial_locals =
      Inr (initial_locals\<lparr>overall_index_change := dp, current_price := c,
             status_text_var := ''CLIMBING'', status_class_var := ''climbing'',
             subtitle_var := ''S&P 500 up 2.00%. Gentle rise.'',
             arrow_character := up_arrow\<rparr>)"
    using assms(4)
    by (simp add: try_body_dict [where s = "''2.00''"]
        classify_finite [where x = 2 and s = "''2.00''"] float_0_2_def
        del: format_2f.simps)
  then show ?thesis
    using assms(1,5) \<open>dp \<noteq> PyNone\<close> fmt
    by (auto simp: get_market_data_def try_except_def build_report_def
        simp del: format_2f.simps)
qed

theorem change_of_two_is_climbing_witness:
  "\<exists>r. get_market_data ''key''
          (world_with (Inr (PyDict [(''c'', PyFloat (Finite 450)), (''dp'', PyFloat (Finite 2))])))
        = Inr r \<and>
       status_class r = ''climbing'' \<and>
       status_text r = ''CLIMBING'' \<and>
       status_arrow r = up_arrow \<and>
       index_change_percent r = ''2.00%''"
proof -
  have resp: "http_get (world_with (Inr (PyDict kvs))) (quote_url ''key'') = Inr (PyDict kvs)"
    for kvs by (simp add: world_with_def)
  have dp: "map_of [(''c'', PyFloat (Finite 450)), (''dp'', PyFloat (Finite 2))] ''dp'' =
      Some (PyFloat (Finite 2))"
    by simp
  have two: "PyFloat (Finite 2) = PyInt 2 \<or> PyFloat (Finite 2) = PyFloat (Finite 2)"
    by simp
  have c: "dict_get (PyDict [(''c'', PyFloat (Finite 450)), (''dp'', PyFloat (Finite 2))]) ''c''
      = Inr (PyFloat (Finite 450))"
    by (simp add: dict_get_def)
  have price: "PyFloat (Finite 450) = PyNone \<or> format_2f (PyFloat (Finite 450)) = Inr ''450.00''"
    by (simp add: format_defs)
  from change_of_two_is_climbing [OF resp dp two c price] show ?thesis
    by blast
qed

text \<open>
  Claim C4: for every real percent change \<open>x\<close> of a successful response (a float, a
  \<^verbatim>\<open>bool\<close>, or an \<^verbatim>\<open>int\<close> that converts to \<^verbatim>\<open>float\<close>, so that line 56 formats it), the chain
  assigns exactly one of the six categories. Each category has its own range of \<open>x\<close>; the
  ranges are disjoint and cover the reals. At the boundaries, \<open>-10\<close> is \<^verbatim>\<open>yes\<close>, \<open>-5\<close> is
  \<^verbatim>\<open>bleeding\<close>, \<open>-2\<close> is \<^verbatim>\<open>sideways\<close>, and \<open>0.2\<close> is \<^verbatim>\<open>sideways\<close>, both as the real one fifth
  and as the float the text \<^verbatim>\<open>0.2\<close> denotes. Every report the function returns carries
  that category, and it returns one whenever the price is absent, \<^verbatim>\<open>null\<close> or formats.
\<close>

theorem classification_partition:
  assumes "http_get w (quote_url API_KEY) = Inr (PyDict kvs)"
      and "map_of kvs ''dp'' = Some dp"
      and "as_number dp = Some (Finite x)"
      and "format_2f dp = Inr s"
  shows "status_class_var (try_except (http_get w (quote_url API_KEY))) \<in>
           set [''yes'', ''bleeding'', ''wobbly'', ''no'', ''climbing'', ''sideways''] \<and>
         (status_class_var (try_except (http_get w (quote_url API_KEY))) = ''yes''
            \<longleftrightarrow> x \<le> - 10) \<and>
         (status_class_var (try_except (http_get w (quote_url API_KEY))) = ''bleeding''
            \<longleftrightarrow> - 10 < x \<and> x \<le> - 5) \<and>
         (status_class_var (try_except (http_get w (quote_url API_KEY))) = ''wobbly''
            \<longleftrightarrow> - 5 < x \<and> x < - 2) \<and>
         (status_class_var (try_except (http_get w (quote_url API_KEY))) = ''no''
            \<longleftrightarrow> 2 < x) \<and>
         (status_class_var (try_except (http_get w (quote_url API_KEY))) = ''climbing''
            \<longleftrightarrow> float_0_2 < x \<and> x \<le> 2) \<and>
         (status_class_var (try_except (http_get w (quote_url API_KEY))) = ''sideways''
            \<longleftrightarrow> - 2 \<le> x \<and> x \<le> float_0_2) \<and>
         (x = - 10 \<longrightarrow>
            status_class_var (try_except (http_get w (quote_url API_KEY))) = ''yes'') \<and>
         (x = - 5 \<longrightarrow>
            status_class_var (try_except (http_get w (quote_url API_KEY))) = ''bleeding'') \<and>
         (x = - 2 \<longrightarrow>
            status_class_var (try_except (http_get w (quote_url API_KEY))) = ''sideways'') \<and>
         (x = 0.2 \<or> x = float_0_2 \<longrightarrow>
            status_class_var (try_except (http_get w (quote_url API_KEY))) = ''sideways'') \<and>
         (\<forall>r. get_market_data API_KEY w = Inr r \<longrightarrow>
            status_class r = status_class_var (try_except (http_get w (quote_url API_KEY)))) \<and>
         (\<forall>c p. dict_get (PyDict kvs) ''c'' = Inr c \<and> (c = PyNone \<or> format_2f c = Inr p) \<longrightarrow>
            (\<exists>r. get_market_data API_KEY w = Inr r))"
proof -
  define cls where "cls =
    (if x \<le> - 10 then ''yes'' else if x \<le> - 5 then ''bleeding''
     else if x < - 2 then ''wobbly'' else if 2 < x then ''no''
     else if float_0_2 < x then ''climbing'' else ''sideways'')"
  define c where "c = (case map_of kvs ''c'' of None \<Rightarrow> PyNone | Some v \<Rightarrow> v)"
  let ?l = "initial_locals\<lparr>overall_index_change := dp, current_price := c\<rparr>"
  have dp: "dict_get (PyDict kvs) ''dp'' = Inr dp" and c: "dict_get (PyDict kvs) ''c'' = Inr c"
    using assms(2) by (simp_all add: dict_get_def c_def)
  have not_none: "dp \<noteq> PyNone"
    using assms(3) by auto
  have "try_body (Inr (PyDict kvs)) initial_locals = classify ?l"
    using try_body_dict [OF dp c, of s initial_locals] not_none assms(4) by simp
  moreover have "\<exists>l'. classify ?l = Inr l' \<and> status_class_var l' = cls \<and>
      overall_index_change l' = dp \<and> current_price l' = c"
    using assms(3,4) by (simp add: classify_finite [where x = x and s = s] cls_def)
  ultimately obtain l' where l': "try_except (Inr (PyDict kvs)) = l'"
      "status_class_var l' = cls" "overall_index_change l' = dp" "current_price l' = c"
    by (auto simp: try_except_def)
  have var: "status_class_var (try_except (http_get w (quote_url API_KEY))) = cls"
    using l'(1,2) assms(1) by simp
  have low: "(0.2 :: real) < float_0_2" and up: "float_0_2 < 2"
    by (simp_all add: float_0_2_def)
  have "cls \<in> set [''yes'', ''bleeding'', ''wobbly'', ''no'', ''climbing'', ''sideways'']"
    by (simp add: cls_def)
  moreover have "cls = ''yes'' \<longleftrightarrow> x \<le> - 10"
    by (simp add: cls_def)
  moreover have "cls = ''bleeding'' \<longleftrightarrow> - 10 < x \<and> x \<le> - 5"
    by (simp add: cls_def)
  moreover have "cls = ''wobbly'' \<longleftrightarrow> - 5 < x \<and> x < - 2"
    by (simp add: cls_def)
  moreover have "cls = ''no'' \<longleftrightarrow> 2 < x"
    using up by (simp add: cls_def)
  moreover have "cls = ''climbing'' \<longleftrightarrow> float_0_2 < x \<and> x \<le> 2"
    using low up by (auto simp: cls_def)
  moreover have "cls = ''sideways'' \<longleftrightarrow> - 2 \<le> x \<and> x \<le> float_0_2"
    using low up by (auto simp: cls_def)
  moreover have "x = - 10 \<longrightarrow> cls = ''yes''"
    and "x = - 5 \<longrightarrow> cls = ''bleeding''"
    and "x = - 2 \<longrightarrow> cls = ''sideways''"
    using low by (simp_all add: cls_def)
  moreover have "x = 0.2 \<or> x = float_0_2 \<longrightarrow> cls = ''sideways''"
    using low up by (auto simp: cls_def)
  moreover have "\<forall>r. get_market_data API_KEY w = Inr r \<longrightarrow> status_class r = cls"
    using assms(1) l'(1,2) by (auto simp: get_market_data_def dest: build_report_fields)
  moreover have "\<forall>c' p. dict_get (PyDict kvs) ''c'' = Inr c' \<and>
      (c' = PyNone \<or> format_2f c' = Inr p) \<longrightarrow> (\<exists>r. get_market_data API_KEY w = Inr r)"
  proof (intro allI impI)
    fix c' p
    assume "dict_get (PyDict kvs) ''c'' = Inr c' \<and> (c' = PyNone \<or> format_2f c' = Inr p)"
    then have "current_price l' = PyNone \<or> format_2f (current_price l') = Inr p"
      using c l'(4) by auto
    from build_report_returns [of l' s p w, OF _ _ this] not_none assms(4) l'(3)
    have "\<exists>r. build_report w l' = Inr r"
      by simp
    then show "\<exists>r. get_market_data API_KEY w = Inr r"
      using assms(1) l'(1) by (simp add: get_market_data_def)
  qed
  ultimately show ?thesis
    unfolding var by (intro conjI)
qed

theorem classification_partition_witness:
  "status_class_var (try_except (Inr (PyDict [(''c'', PyFloat (Finite 450)),
                                              (''dp'', PyInt (- 10))]))) = ''yes'' \<and>
   status_class_var (try_except (Inr (PyDict [(''c'', PyFloat (Finite 450)),
                                              (''dp'', PyFloat (binary64 0.2))]))) = ''sideways'' \<and>
   (\<exists>r. get_market_data ''key''
           (world_with (Inr (PyDict [(''c'', PyFloat (Finite 450)),
                                     (''dp'', PyFloat (binary64 0.2))]))) = Inr r)"
proof -
  let ?ten = "[(''c'', PyFloat (Finite 450)), (''dp'', PyInt (- 10))]"
  let ?fifth = "[(''c'', PyFloat (Finite 450)), (''dp'', PyFloat (binary64 0.2))]"
  have price: "PyFloat (Finite 450) = PyNone \<or> format_2f (PyFloat (Finite 450)) = Inr ''450.00''"
    by (simp add: format_defs)
  have resp: "http_get (world_with (Inr (PyDict kvs))) (quote_url ''key'') = Inr (PyDict kvs)"
    for kvs by (simp add: world_with_def)
  have c: "dict_get (PyDict ?fifth) ''c'' = Inr (PyFloat (Finite 450))"
    by (simp add: dict_get_def)
  have dp: "map_of [(''c'', PyFloat (Finite 450)), (''dp'', d)] ''dp'' = Some d" for d
    by simp
  have ten: "as_number (PyInt (- 10)) = Some (Finite (- 10))"
    and ten_fmt: "format_2f (PyInt (- 10)) = Inr ''-10.00''"
    by (simp_all add: format_defs)
  have fifth: "as_number (PyFloat (binary64 0.2)) = Some (Finite float_0_2)"
    and fifth_fmt: "format_2f (PyFloat (binary64 0.2)) = Inr (fixed2 float_0_2)"
    by (simp_all only: binary64_0_2 as_number.simps format_2f.simps format_float.simps)
  note at_ten = classification_partition [OF resp dp ten ten_fmt, unfolded resp]
  note at_fifth = classification_partition [OF resp dp fifth fifth_fmt, unfolded resp]
  have "(- 10 :: real) = - 10 \<longrightarrow> status_class_var (try_except (Inr (PyDict ?ten))) = ''yes''"
    using at_ten by (elim conjE)
  then have one: "status_class_var (try_except (Inr (PyDict ?ten))) = ''yes''"
    by simp
  have "float_0_2 = 0.2 \<or> float_0_2 = float_0_2 \<longrightarrow>
      status_class_var (try_except (Inr (PyDict ?fifth))) = ''sideways''"
    using at_fifth by (elim conjE)
  then have two: "status_class_var (try_except (Inr (PyDict ?fifth))) = ''sideways''"
    by simp
  have "\<forall>c p. dict_get (PyDict ?fifth) ''c'' = Inr c \<and> (c = PyNone \<or> format_2f c = Inr p) \<longrightarrow>
      (\<exists>r. get_market_data ''key'' (world_with (Inr (PyDict ?fifth))) = Inr r)"
    using at_fifth by (elim conjE)
  with c price have three: "\<exists>r. get_market_data ''key'' (world_with (Inr (PyDict ?fifth))) = Inr r"
    by blast
  from one two three show ?thesis
    by (intro conjI)
qed

text \<open>
  Claim C7: for a successful fetch with current price 450.1234 and percent change 3.5 the
  report has the price \<^verbatim>\<open>450.12\<close>, the change \<^verbatim>\<open>3.50%\<close> and the status class \<^verbatim>\<open>no\<close>. The price
  is the float the decoder makes of the text \<^verbatim>\<open>450.1234\<close> (or the real itself); 3.5 is a
  float as it stands.
\<close>

theorem price_and_change_formatted:
  assumes "http_get w (quote_url API_KEY) = Inr (PyDict kvs)"
      and "map_of kvs ''dp'' = Some (PyFloat (Finite 3.5))"
      and "map_of kvs ''c'' = Some c"
      and "c = PyFloat (Finite 450.1234) \<or> c = PyFloat (binary64 450.1234)"
  shows "\<exists>r. get_market_data API_KEY w = Inr r \<and>
           index_current_price r = ''450.12'' \<and>
           index_change_percent r = ''3.50%'' \<and>
           status_class r = ''no''"
proof -
  have "format_2f c = Inr ''450.12''"
    using assms(4) by (auto simp: format_defs)
  moreover have "c \<noteq> PyNone"
    using assms(4) by auto
  ultimately show ?thesis
    using assms(1-3)
    by (simp add: fetch_defs fixed2_def round_half_even_def decimal.simps digit_char_def
        del: format_2f.simps add: format_2f.simps(4))
qed

theorem price_and_change_formatted_witness:
  "\<exists>r. get_market_data ''key''
          (world_with (Inr (PyDict [(''c'', PyFloat (binary64 450.1234)),
                                    (''dp'', PyFloat (Finite 3.5))]))) = Inr r \<and>
       index_current_price r = ''450.12'' \<and>
       index_change_percent r = ''3.50%'' \<and>
       status_class r = ''no''"
proof -
  have resp: "http_get (world_with (Inr (PyDict kvs))) (quote_url ''key'') = Inr (PyDict kvs)"
    for kvs by (simp add: world_with_def)
  have dp: "map_of [(''c'', PyFloat (binary64 450.1234)), (''dp'', PyFloat (Finite 3.5))] ''dp''
      = Some (PyFloat (Finite 3.5))"
    and c: "map_of [(''c'', PyFloat (binary64 450.1234)), (''dp'', PyFloat (Finite 3.5))] ''c''
      = Some (PyFloat (binary64 450.1234))"
    by simp_all
  from price_and_change_formatted [OF resp dp c] show ?thesis
    by blast
qed

section \<open>Failures of the fetch\<close>

text \<open>
  Claim C2 says that on a timeout the report has the status class \<^verbatim>\<open>error\<close>, the arrow
  \<^verbatim>\<open>?\<close>, a non-empty error message and the change \<^verbatim>\<open>N/A\<close>. What the code returns when the
  request raises \<^verbatim>\<open>Timeout\<close>: all of that but the last. \<^verbatim>\<open>overall_index_change\<close> is
  initialised to 0 (line 29), not to \<^verbatim>\<open>None\<close> as \<^verbatim>\<open>current_price\<close> is, so the test at line
  135 never selects \<^verbatim>\<open>N/A\<close> and the change reads \<^verbatim>\<open>0.00%\<close>; the price does read \<^verbatim>\<open>N/A\<close>.
\<close>

theorem timeout_report:
  assumes "http_get w (quote_url API_KEY) = Inl (Timeout m)"
  shows "get_market_data API_KEY w =
     Inr \<lparr>status_text = ''ERROR'',
          status_class = ''error'',
          status_arrow = ''?'',
          subtitle = ''Could not fetch market data.'',
          giphy_embed_code = get_visual_humor_embed ''error'',
          index_change_percent = ''0.00%'',
          index_current_price = ''N/A'',
          index_symbol = ''SPY'',
          generation_time = strftime_now w,
          error_message = Some ''API request timed out.''\<rparr>"
  using assms by (simp add: fetch_defs format_2f_zero del: format_2f.simps)

theorem timeout_report_witness:
  "map_sum str_exn index_change_percent
     (get_market_data ''key'' (world_with (Inl (Timeout ''Read timed out.'')))) = Inr ''0.00%'' \<and>
   map_sum str_exn index_current_price
     (get_market_data ''key'' (world_with (Inl (Timeout ''Read timed out.'')))) = Inr ''N/A''"
proof -
  have "http_get (world_with (Inl (Timeout ''Read timed out.''))) (quote_url ''key'') =
      Inl (Timeout ''Read timed out.'')"
    by (simp add: world_with_def)
  from timeout_report [OF this] show ?thesis
    by simp
qed

text \<open>
  Claim C3 says that no response makes \<^verbatim>\<open>get_market_data\<close> raise. What the code does on
  a response whose percent change is a string: the f-string at line 56 raises
  \<^verbatim>\<open>ValueError\<close>, the last \<^verbatim>\<open>except\<close> clause catches it and sets the status \<^verbatim>\<open>error\<close>, but
  \<^verbatim>\<open>overall_index_change\<close> still holds the string, and the f-string at line 135, outside
  the \<^verbatim>\<open>try\<close> statement, raises the same \<^verbatim>\<open>ValueError\<close> again. It leaves the function.
\<close>

theorem string_percent_change_raises:
  assumes "http_get w (quote_url API_KEY) = Inr (PyDict kvs)"
      and "map_of kvs ''dp'' = Some (PyStr s)"
  shows "get_market_data API_KEY w =
     Inl (ValueError (''Unknown format code 'f' for object of type 'str'' @ sq))"
  using assms by (simp add: fetch_defs)

theorem string_percent_change_raises_witness:
  "get_market_data ''key''
     (world_with (Inr (PyDict [(''c'', PyFloat (binary64 450.12)), (''dp'', PyStr ''abc'')]))) =
   Inl (ValueError (''Unknown format code 'f' for object of type 'str'' @ sq))"
proof -
  have "http_get (world_with (Inr (PyDict kvs))) (quote_url ''key'') = Inr (PyDict kvs)" for kvs
    by (simp add: world_with_def)
  moreover have "map_of [(''c'', PyFloat (binary64 450.12)), (''dp'', PyStr ''abc'')] ''dp'' =
      Some (PyStr ''abc'')"
    by simp
  ultimately show ?thesis
    by (rule string_percent_change_raises)
qed

text \<open>
  Claim C5: when the response is a JSON object without the percent change (the key is
  absent, or its value is \<^verbatim>\<open>null\<close>) and the price is absent or formats, the change is
  taken as 0: the report is \<^verbatim>\<open>sideways\<close> with the label \<^verbatim>\<open>FLAT\<close> and the change \<^verbatim>\<open>0.00%\<close>, the
  error message is the advisory text, and the status class is not \<^verbatim>\<open>error\<close>.
\<close>

theorem missing_percent_change_is_flat:
  assumes "http_get w (quote_url API_KEY) = Inr (PyDict kvs)"
      and "dict_get (PyDict kvs) ''dp'' = Inr PyNone"
      and "dict_get (PyDict kvs) ''c'' = Inr c"
      and "c = PyNone \<or> format_2f c = Inr p"
  shows "\<exists>r. get_market_data API_KEY w = Inr r \<and>
           status_class r = ''sideways'' \<and>
           status_text r = ''FLAT'' \<and>
           status_arrow r = flat_bar \<and>
           index_change_percent r = ''0.00%'' \<and>
           error_message r = Some ''Could not retrieve percent change for SPY.'' \<and>
           error_message r \<noteq> Some [] \<and>
           status_class r \<noteq> ''error''"
proof -
  have zero: "format_2f (if PyNone = PyNone then PyInt 0 else PyNone) = Inr ''0.00''"
    by (simp add: format_2f_zero del: format_2f.simps)
  have "try_body (Inr (PyDict kvs)) initial_locals =
      Inr (initial_locals\<lparr>overall_index_change := PyInt 0, current_price := c,
             error_msg := Some ''Could not retrieve percent change for SPY.'',
             status_text_var := ''FLAT'', status_class_var := ''sideways'',
             subtitle_var := ''S&P 500 change: 0.00%. Holding steady...'',
             arrow_character := flat_bar\<rparr>)"
    by (simp add: try_body_dict [OF assms(2,3) zero] format_2f_zero float_0_2_def
        classify_finite [where x = 0 and s = "''0.00''"] del: format_2f.simps)
  then show ?thesis
    using assms(1,4)
    by (auto simp: get_market_data_def try_except_def build_report_def format_2f_zero
        simp del: format_2f.simps)
qed

theorem missing_percent_change_is_flat_witness:
  "\<exists>r. get_market_data ''key'' (world_with (Inr (PyDict [(''c'', PyFloat (binary64 450.12))])))
        = Inr r \<and>
       status_class r = ''sideways'' \<and>
       index_change_percent r = ''0.00%'' \<and>
       error_message r = Some ''Could not retrieve percent change for SPY.''"
proof -
  have resp: "http_get (world_with (Inr (PyDict [(''c'', PyFloat (binary64 450.12))])))
      (quote_url ''key'') = Inr (PyDict [(''c'', PyFloat (binary64 450.12))])"
    by (simp add: world_with_def)
  have dp: "dict_get (PyDict [(''c'', PyFloat (binary64 450.12))]) ''dp'' = Inr PyNone"
    and c: "dict_get (PyDict [(''c'', PyFloat (binary64 450.12))]) ''c'' =
      Inr (PyFloat (binary64 450.12))"
    by (simp_all add: dict_get_def)
  have price: "PyFloat (binary64 450.12) = PyNone \<or>
      format_2f (PyFloat (binary64 450.12)) = Inr ''450.12''"
    by (simp add: format_defs)
  from missing_percent_change_is_flat [OF resp dp c price] show ?thesis
    by blast
qed

section \<open>The status class and the embed\<close>

text \<open>
  Claim C6: every report \<^verbatim>\<open>get_market_data\<close> returns has a status class of the enumerated
  set, and its embed, looked up from that class, is not empty. \<^verbatim>\<open>get_visual_humor_embed\<close>
  returns the table's entry, a non-empty string, for every enumerated class, and the
  default, non-empty as well, for any other string.
\<close>

theorem status_class_enumerated:
  "(get_market_data API_KEY w = Inr r \<longrightarrow>
      status_class r \<in> set status_classes \<and>
      giphy_embed_code r = get_visual_humor_embed (status_class r) \<and>
      giphy_embed_code r \<noteq> []) \<and>
   (c \<in> set status_classes \<longrightarrow>
      map_of embed_map c = Some (get_visual_humor_embed c) \<and>
      get_visual_humor_embed c \<noteq> []) \<and>
   (c \<notin> set status_classes \<longrightarrow> get_visual_humor_embed c = default_embed) \<and>
   default_embed \<noteq> []"
proof (intro conjI impI)
  assume r: "get_market_data API_KEY w = Inr r"
  then have fields: "status_class r = status_class_var (try_except (http_get w (quote_url API_KEY)))"
      "giphy_embed_code r = get_visual_humor_embed (status_class r)"
    by (simp_all add: get_market_data_def build_report_fields)
  show "status_class r \<in> set status_classes"
    by (simp only: fields(1) try_except_class)
  show "giphy_embed_code r = get_visual_humor_embed (status_class r)"
    by (rule fields(2))
  show "giphy_embed_code r \<noteq> []"
    by (simp only: fields(2) embed_nonempty not_False_eq_True)
next
  assume "c \<in> set status_classes"
  then show "map_of embed_map c = Some (get_visual_humor_embed c)"
    by (auto simp: status_classes_def get_visual_humor_embed_def embed_map_def)
next
  show "get_visual_humor_embed c \<noteq> []"
    by (rule embed_nonempty)
next
  assume "c \<notin> set status_classes"
  then show "get_visual_humor_embed c = default_embed"
    by (rule embed_default)
next
  show "default_embed \<noteq> []"
    by (simp add: default_embed_def)
qed

theorem status_class_enumerated_witness:
  "(\<exists>r. get_market_data ''key'' (world_with (Inl (RequestException ''Connection refused'')))
         = Inr r \<and>
        status_class r \<in> set status_classes \<and> giphy_embed_code r \<noteq> []) \<and>
   ''error'' \<in> set status_classes \<and>
   get_visual_humor_embed ''error'' \<noteq> [] \<and>
   ''maybe'' \<notin> set status_classes \<and>
   get_visual_humor_embed ''maybe'' = default_embed"
proof -
  have "\<exists>r. get_market_data ''key'' (world_with (Inl (RequestException ''Connection refused'')))
      = Inr r"
    by (simp add: fetch_defs world_defs format_2f_zero del: format_2f.simps)
  then obtain r where r: "get_market_data ''key''
      (world_with (Inl (RequestException ''Connection refused''))) = Inr r" ..
  have err: "''error'' \<in> set status_classes" and maybe: "''maybe'' \<notin> set status_classes"
    by (simp_all add: status_classes_def)
  from status_class_enumerated
         [of "''key''" "world_with (Inl (RequestException ''Connection refused''))" r "''error''"]
       status_class_enumerated
         [of "''key''" "world_with (Inl (RequestException ''Connection refused''))" r "''maybe''"]
       r err maybe
  show ?thesis by blast
qed

section \<open>The renderer's result\<close>

text \<open>
  Claim C8: \<^verbatim>\<open>generate_html\<close> returns a boolean. When the template loads, renders and the
  file is written, it returns true and the output file holds the rendered page; it
  returns true in no other case. When the template is missing, when rendering raises,
  when the file cannot be opened or when the write raises, it returns false: the
  exception is caught, and the file is as it was, or as the failed write left it.
\<close>

theorem generate_html_returns_success:
  "(fst (generate_html w data) \<longleftrightarrow>
      (\<exists>template content.
          get_template w = Inr template \<and> template data = Inr content \<and>
          open_write w = Written)) \<and>
   (get_template w = Inr template \<and> template data = Inr content \<and> open_write w = Written \<longrightarrow>
      generate_html w data = (True, Some content)) \<and>
   (get_template w = Inl e \<longrightarrow> generate_html w data = (False, index_html w)) \<and>
   (get_template w = Inr template \<and> template data = Inl e \<longrightarrow>
      generate_html w data = (False, index_html w)) \<and>
   (get_template w = Inr template \<and> template data = Inr content \<and>
    open_write w = OpenRaises e \<longrightarrow>
      generate_html w data = (False, index_html w)) \<and>
   (get_template w = Inr template \<and> template data = Inr content \<and>
    open_write w = WriteRaises e left \<longrightarrow>
      generate_html w data = (False, Some left))"
  by (auto simp: generate_html_file split: sum.splits io_outcome.splits)

theorem generate_html_returns_success_witness:
  "(\<forall>data. generate_html (world_with (Inl (Timeout ''Read timed out.''))) data =
      (True, Some (status_class data @ '' '' @ index_current_price data))) \<and>
   (\<forall>data. generate_html
             ((world_with (Inl (Timeout ''Read timed out.'')))
                \<lparr>get_template := Inl (OtherException ''template.html'')\<rparr>) data =
      (False, None)) \<and>
   (\<forall>data. generate_html
             ((world_with (Inl (Timeout ''Read timed out.'')))
                \<lparr>open_write := WriteRaises (OtherException ''No space left on device'') ''cl''\<rparr>)
             data =
      (False, Some ''cl''))"
proof -
  let ?w = "world_with (Inl (Timeout ''Read timed out.''))"
  let ?w1 = "?w\<lparr>get_template := Inl (OtherException ''template.html'')\<rparr>"
  let ?w2 = "?w\<lparr>open_write := WriteRaises (OtherException ''No space left on device'') ''cl''\<rparr>"
  let ?t = "\<lambda>data. Inr (status_class data @ '' '' @ index_current_price data) :: exn + string"
  have ok: "get_template ?w = Inr ?t \<and> ?t data = Inr (status_class data @ '' '' @
      index_current_price data) \<and> open_write ?w = Written" for data
    by (simp add: world_with_def)
  have missing: "get_template ?w1 = Inl (OtherException ''template.html'')"
    and none: "index_html ?w1 = None"
    by (simp_all add: world_with_def)
  have full: "get_template ?w2 = Inr ?t \<and> ?t data = Inr (status_class data @ '' '' @
      index_current_price data) \<and>
      open_write ?w2 = WriteRaises (OtherException ''No space left on device'') ''cl''" for data
    by (simp add: world_with_def)
  have "generate_html ?w data = (True, Some (status_class data @ '' '' @
      index_current_price data))" for data
    using generate_html_returns_success
      [of ?w data ?t "status_class data @ '' '' @ index_current_price data"] ok [of data]
    by simp
  moreover have "generate_html ?w1 data = (False, None)" for data
    using generate_html_returns_success
      [of ?w1 data ?t "[]" "OtherException ''template.html''" "[]"]
      missing none
    by simp
  moreover have "generate_html ?w2 data = (False, Some ''cl'')" for data
    using generate_html_returns_success
      [of ?w2 data ?t "status_class data @ '' '' @ index_current_price data"
          "OtherException ''No space left on device''" "''cl''"] full [of data]
    by simp
  ultimately show ?thesis
    by simp
qed

section \<open>The exit status\<close>

text \<open>
  Claim C9 says that the exit status is 1 when the credential is missing and 0 in every
  other case. What the script does: with the credential missing (absent or empty, line
  11) it exits with 1 and sends no request; with the credential set, it exits with 0
  whenever \<^verbatim>\<open>get_market_data\<close> returns a report, whatever the report's status class and
  whatever \<^verbatim>\<open>generate_html\<close> returns. But with the credential set and a response whose
  percent change is a string, \<^verbatim>\<open>get_market_data\<close> raises (line 135), nothing catches the
  exception, and the process ends with status 1 after the request, with no page written.
\<close>

theorem exit_status_of_script:
  "(FINANCIAL_API_KEY w = None \<or> FINANCIAL_API_KEY w = Some [] \<longrightarrow>
      exit_code (script w) = 1 \<and> requests_sent (script w) = []) \<and>
   (FINANCIAL_API_KEY w = Some k \<and> k \<noteq> [] \<and> get_market_data k w = Inr r \<longrightarrow>
      exit_code (script w) = 0 \<and> requests_sent (script w) = [quote_url k] \<and>
      index_html_after (script w) = snd (generate_html w r)) \<and>
   (FINANCIAL_API_KEY w = Some k \<and> k \<noteq> [] \<and>
    http_get w (quote_url k) = Inr (PyDict kvs) \<and> map_of kvs ''dp'' = Some (PyStr s) \<longrightarrow>
      exit_code (script w) = 1 \<and> requests_sent (script w) = [quote_url k] \<and>
      index_html_after (script w) = index_html w)"
proof (intro conjI impI)
  assume "FINANCIAL_API_KEY w = None \<or> FINANCIAL_API_KEY w = Some []"
  then show "exit_code (script w) = 1" and "requests_sent (script w) = []"
    by (auto simp: script_def)
next
  assume "FINANCIAL_API_KEY w = Some k \<and> k \<noteq> [] \<and> get_market_data k w = Inr r"
  then show "exit_code (script w) = 0" and "requests_sent (script w) = [quote_url k]"
    and "index_html_after (script w) = snd (generate_html w r)"
    by (simp_all add: script_def)
next
  assume a: "FINANCIAL_API_KEY w = Some k \<and> k \<noteq> [] \<and>
    http_get w (quote_url k) = Inr (PyDict kvs) \<and> map_of kvs ''dp'' = Some (PyStr s)"
  then have "get_market_data k w =
      Inl (ValueError (''Unknown format code 'f' for object of type 'str'' @ sq))"
    by (simp add: fetch_defs)
  with a show "exit_code (script w) = 1" and "requests_sent (script w) = [quote_url k]"
    and "index_html_after (script w) = index_html w"
    by (simp_all add: script_def)
qed

theorem exit_status_of_script_witness:
  "exit_code (script ((world_with (Inl (Timeout ''Read timed out.'')))
                        \<lparr>FINANCIAL_API_KEY := None\<rparr>)) = 1 \<and>
   requests_sent (script ((world_with (Inl (Timeout ''Read timed out.'')))
                            \<lparr>FINANCIAL_API_KEY := None\<rparr>)) = [] \<and>
   (\<exists>r. get_market_data ''key''
           ((world_with (Inl (Timeout ''Read timed out.'')))
              \<lparr>get_template := Inl (OtherException ''template.html'')\<rparr>) = Inr r \<and>
        status_class r = ''error'' \<and>
        \<not> fst (generate_html
                 ((world_with (Inl (Timeout ''Read timed out.'')))
                    \<lparr>get_template := Inl (OtherException ''template.html'')\<rparr>) r)) \<and>
   exit_code (script ((world_with (Inl (Timeout ''Read timed out.'')))
                        \<lparr>get_template := Inl (OtherException ''template.html'')\<rparr>)) = 0 \<and>
   exit_code (script (world_with (Inr (PyDict [(''c'', PyFloat (binary64 450.12)),
                                                (''dp'', PyStr ''abc'')])))) = 1 \<and>
   requests_sent (script (world_with (Inr (PyDict [(''c'', PyFloat (binary64 450.12)),
                                                    (''dp'', PyStr ''abc'')])))) =
     [''https://finnhub.io/api/v1/quote?symbol=SPY&token=key'']"
proof -
  let ?w1 = "(world_with (Inl (Timeout ''Read timed out.'')))\<lparr>FINANCIAL_API_KEY := None\<rparr>"
  let ?w2 = "(world_with (Inl (Timeout ''Read timed out.'')))
               \<lparr>get_template := Inl (OtherException ''template.html'')\<rparr>"
  let ?kvs = "[(''c'', PyFloat (binary64 450.12)), (''dp'', PyStr ''abc'')]"
  let ?w3 = "world_with (Inr (PyDict ?kvs))"
  have "\<exists>r. get_market_data ''key'' ?w2 = Inr r \<and> status_class r = ''error''"
    by (simp add: fetch_defs world_defs format_2f_zero del: format_2f.simps)
  then obtain r where r: "get_market_data ''key'' ?w2 = Inr r" "status_class r = ''error''"
    by blast
  have key: "FINANCIAL_API_KEY ?w2 = Some ''key''" "''key'' \<noteq> []"
    and none: "FINANCIAL_API_KEY ?w1 = None"
    by (simp_all add: world_with_def)
  have false: "\<not> fst (generate_html ?w2 r)"
    by (simp add: generate_html_def generate_html_try_def world_with_def)
  have third: "FINANCIAL_API_KEY ?w3 = Some ''key''"
      "http_get ?w3 (quote_url ''key'') = Inr (PyDict ?kvs)"
      "map_of ?kvs ''dp'' = Some (PyStr ''abc'')"
    by (simp_all add: world_with_def)
  have url: "quote_url ''key'' = ''https://finnhub.io/api/v1/quote?symbol=SPY&token=key''"
    by (simp add: quote_url_def FINANCIAL_API_BASE_URL_def INDEX_SYMBOL_def)
  from exit_status_of_script [of ?w1] none
  have "exit_code (script ?w1) = 1 \<and> requests_sent (script ?w1) = []"
    by blast
  moreover from exit_status_of_script [of ?w2 "''key''" r] key r(1)
  have "exit_code (script ?w2) = 0"
    by blast
  moreover from exit_status_of_script [of ?w3 "''key''" _ ?kvs "''abc''"] third key(2)
  have "exit_code (script ?w3) = 1 \<and> requests_sent (script ?w3) = [quote_url ''key'']"
    by blast
  ultimately show ?thesis
    using r false unfolding url by blast
qed

section \<open>Two runs in sequence\<close>

text \<open>
  The second of two runs in sequence starts on the file the first run left. When the
  two runs meet the same credential, responses, template and write outcome, and the
  rendering of the second run's report has the outcome of the first run's, both runs
  leave the same file.
\<close>

lemma second_run_same_file:
  assumes key: "FINANCIAL_API_KEY w2 = FINANCIAL_API_KEY w1"
      and get: "http_get w2 = http_get w1"
      and tmpl: "get_template w2 = get_template w1"
      and wr: "open_write w2 = open_write w1"
      and seq: "index_html w2 = index_html_after (script w1)"
      and same: "\<And>k r template. FINANCIAL_API_KEY w1 = Some k \<Longrightarrow> get_market_data k w1 = Inr r \<Longrightarrow>
                   get_template w1 = Inr template \<Longrightarrow>
                   template (r\<lparr>generation_time := strftime_now w2\<rparr>) = template r"
  shows "index_html_after (script w2) = index_html_after (script w1)"
proof -
  have gmd: "get_market_data k w2 =
      map_sum id (\<lambda>r. r\<lparr>generation_time := strftime_now w2\<rparr>) (get_market_data k w1)" for k
    by (simp add: get_market_data_def get build_report_clock [of w2 _ w1])
  show ?thesis
  proof (cases "FINANCIAL_API_KEY w1")
    case None
    then show ?thesis
      using key seq by (simp add: script_file)
  next
    case (Some k)
    show ?thesis
    proof (cases "k = []")
      case True
      then show ?thesis
        using Some key seq by (simp add: script_file)
    next
      case False
      show ?thesis
      proof (cases "get_market_data k w1")
        case (Inl e)
        then show ?thesis
          using Some False key seq gmd [of k] by (simp add: script_file)
      next
        case (Inr r)
        have first: "index_html_after (script w1) = snd (generate_html w1 r)"
          using Some False Inr by (simp add: script_file)
        have second: "index_html_after (script w2) =
            snd (generate_html w2 (r\<lparr>generation_time := strftime_now w2\<rparr>))"
          using Some False Inr key gmd [of k] by (simp add: script_file)
        show ?thesis
        proof (cases "get_template w1")
          case (Inl e)
          then show ?thesis
            using first second seq tmpl by (simp add: generate_html_file)
        next
          case template: (Inr template)
          have "template (r\<lparr>generation_time := strftime_now w2\<rparr>) = template r"
            using same Some Inr template by simp
          then show ?thesis
            using first second seq tmpl wr template
            by (cases "template r"; cases "open_write w1") (simp_all add: generate_html_file)
        qed
      qed
    qed
  qed
qed

text \<open>
  Claim C10: two runs of the pipeline in sequence that meet the same credential, the same
  responses, the same template and the same outcome of the write, the second starting on
  the file the first one left, agree in everything but the generation time. The report of
  the second run is the report of the first with its \<^verbatim>\<open>generation_time\<close> replaced (or both
  raise the same exception), and the exit status and the requests are the same. When
  both runs render and write, the first file is the template applied to the first
  report and the second file, which replaces it, is the template applied to that report
  with the second generation time. The two files are the same byte for byte when the
  clock shows the same time in both runs, and when the template does not print the
  generation time.
\<close>

theorem second_run_differs_in_generation_time_only:
  assumes "FINANCIAL_API_KEY w2 = FINANCIAL_API_KEY w1"
      and "http_get w2 = http_get w1"
      and "get_template w2 = get_template w1"
      and "open_write w2 = open_write w1"
      and "index_html w2 = index_html_after (script w1)"
  shows "get_market_data k w2 =
           map_sum id (\<lambda>r. r\<lparr>generation_time := strftime_now w2\<rparr>) (get_market_data k w1) \<and>
         exit_code (script w2) = exit_code (script w1) \<and>
         requests_sent (script w2) = requests_sent (script w1) \<and>
         (FINANCIAL_API_KEY w1 = Some k \<and> k \<noteq> [] \<and> get_market_data k w1 = Inr r \<and>
          get_template w1 = Inr template \<and> template r = Inr page1 \<and>
          template (r\<lparr>generation_time := strftime_now w2\<rparr>) = Inr page2 \<and>
          open_write w1 = Written \<longrightarrow>
            index_html_after (script w1) = Some page1 \<and>
            index_html_after (script w2) = Some page2) \<and>
         (strftime_now w2 = strftime_now w1 \<longrightarrow>
            index_html_after (script w2) = index_html_after (script w1)) \<and>
         ((\<forall>template. get_template w1 = Inr template \<longrightarrow>
              (\<forall>r t. template (r\<lparr>generation_time := t\<rparr>) = template r)) \<longrightarrow>
          index_html_after (script w2) = index_html_after (script w1))"
proof -
  have gmd: "get_market_data k w2 =
      map_sum id (\<lambda>r. r\<lparr>generation_time := strftime_now w2\<rparr>) (get_market_data k w1)" for k
    by (simp add: get_market_data_def assms(2) build_report_clock [of w2 _ w1])
  have code: "exit_code (script w2) = exit_code (script w1)"
    and reqs: "requests_sent (script w2) = requests_sent (script w1)"
    by (cases "FINANCIAL_API_KEY w1"; cases "get_market_data (the (FINANCIAL_API_KEY w1)) w1";
        simp add: script_def assms(1) gmd)+
  have pages: "index_html_after (script w1) = Some page1 \<and>
      index_html_after (script w2) = Some page2"
    if "FINANCIAL_API_KEY w1 = Some k \<and> k \<noteq> [] \<and> get_market_data k w1 = Inr r \<and>
        get_template w1 = Inr template \<and> template r = Inr page1 \<and>
        template (r\<lparr>generation_time := strftime_now w2\<rparr>) = Inr page2 \<and>
        open_write w1 = Written"
    using that assms(1,3,4) gmd [of k] by (simp add: script_file generate_html_file)
  have same_clock: "index_html_after (script w2) = index_html_after (script w1)"
    if clock: "strftime_now w2 = strftime_now w1"
  proof (rule second_run_same_file [OF assms])
    fix k r template
    assume "get_market_data k w1 = Inr r"
    then have "generation_time r = strftime_now w1"
      by (simp add: get_market_data_def build_report_fields)
    then have "r\<lparr>generation_time := strftime_now w2\<rparr> = r"
      using clock by simp
    then show "template (r\<lparr>generation_time := strftime_now w2\<rparr>) = template r"
      by simp
  qed
  have no_time: "index_html_after (script w2) = index_html_after (script w1)"
    if "\<forall>template. get_template w1 = Inr template \<longrightarrow>
          (\<forall>r t. template (r\<lparr>generation_time := t\<rparr>) = template r)"
    using that by (intro second_run_same_file [OF assms]) simp
  from gmd code reqs pages same_clock no_time show ?thesis
    by (intro conjI impI) blast+
qed

theorem second_run_differs_in_generation_time_only_witness:
  "index_html_after
     (script ((world_with (Inr (PyDict [(''c'', PyFloat (Finite 450)), (''dp'', PyInt 1)])))
                \<lparr>get_template :=
                   Inr (\<lambda>data. Inr (status_class data @ '' at '' @ generation_time data))\<rparr>)) =
     Some ''climbing at 2024-01-01 00:00:00 '' \<and>
   index_html_after
     (script ((world_with (Inr (PyDict [(''c'', PyFloat (Finite 450)), (''dp'', PyInt 1)])))
                \<lparr>get_template :=
                   Inr (\<lambda>data. Inr (status_class data @ '' at '' @ generation_time data)),
                 strftime_now := ''2024-01-02 00:00:00 '',
                 index_html := Some ''climbing at 2024-01-01 00:00:00 ''\<rparr>)) =
     Some ''climbing at 2024-01-02 00:00:00 ''"
proof -
  let ?t = "\<lambda>data. Inr (status_class data @ '' at '' @ generation_time data) :: exn + string"
  let ?w1 = "(world_with (Inr (PyDict [(''c'', PyFloat (Finite 450)), (''dp'', PyInt 1)])))
               \<lparr>get_template := Inr ?t\<rparr>"
  let ?w2 = "?w1\<lparr>strftime_now := ''2024-01-02 00:00:00 '',
                 index_html := Some ''climbing at 2024-01-01 00:00:00 ''\<rparr>"
  have "\<exists>r. get_market_data ''key'' ?w1 = Inr r \<and> status_class r = ''climbing'' \<and>
      generation_time r = ''2024-01-01 00:00:00 ''"
    by (simp add: fetch_defs format_defs world_defs float_0_2_def)
  then obtain r where r: "get_market_data ''key'' ?w1 = Inr r" "status_class r = ''climbing''"
      "generation_time r = ''2024-01-01 00:00:00 ''"
    by blast
  have first: "index_html_after (script ?w1) = Some ''climbing at 2024-01-01 00:00:00 ''"
    using r by (simp add: script_file generate_html_file world_with_def)
  have hyps: "FINANCIAL_API_KEY ?w2 = FINANCIAL_API_KEY ?w1" "http_get ?w2 = http_get ?w1"
      "get_template ?w2 = get_template ?w1" "open_write ?w2 = open_write ?w1"
    by simp_all
  have seq: "index_html ?w2 = index_html_after (script ?w1)"
    using first by simp
  have run: "FINANCIAL_API_KEY ?w1 = Some ''key'' \<and> ''key'' \<noteq> [] \<and>
      get_market_data ''key'' ?w1 = Inr r \<and> get_template ?w1 = Inr ?t \<and>
      ?t r = Inr ''climbing at 2024-01-01 00:00:00 '' \<and>
      ?t (r\<lparr>generation_time := strftime_now ?w2\<rparr>) = Inr ''climbing at 2024-01-02 00:00:00 '' \<and>
      open_write ?w1 = Written"
    using r by (simp add: world_with_def)
  note second_run_differs_in_generation_time_only
    [OF hyps seq, of "''key''" r ?t "''climbing at 2024-01-01 00:00:00 ''"
       "''climbing at 2024-01-02 00:00:00 ''"]
  then have "FINANCIAL_API_KEY ?w1 = Some ''key'' \<and> ''key'' \<noteq> [] \<and>
      get_market_data ''key'' ?w1 = Inr r \<and> get_template ?w1 = Inr ?t \<and>
      ?t r = Inr ''climbing at 2024-01-01 00:00:00 '' \<and>
      ?t (r\<lparr>generation_time := strftime_now ?w2\<rparr>) = Inr ''climbing at 2024-01-02 00:00:00 '' \<and>
      open_write ?w1 = Written \<longrightarrow>
        index_html_after (script ?w1) = Some ''climbing at 2024-01-01 00:00:00 '' \<and>
        index_html_after (script ?w2) = Some ''climbing at 2024-01-02 00:00:00 ''"
    by (elim conjE)
  then show ?thesis
    using run by (rule mp)
qed

end
